theory Spec2Isabelle
  imports Main
begin

section \<open>Inactive-service detector: the data model\<close>

text \<open>
  The program is \<^verbatim>\<open>src/main.py\<close>. Python strings are modelled as \<^typ>\<open>string\<close>
  holding ASCII text. A parsed YAML/JSON document is a \<open>pyval\<close>; a mapping is the list
  of its \<open>items()\<close> in iteration (insertion) order. The keys of a mapping are hashable
  scalars: JSON keys are always strings, YAML keys may also be integers, booleans, the
  null value and other scalars (floats, dates, binaries).
\<close>

datatype pykey =
    KStr string
  | KInt int
  | KBool bool
  | KNone
  | KOther string "string option"
    \<comment> \<open>any other hashable scalar: its \<open>str()\<close> text and its JSON encoding,
        \<open>None\<close> when \<open>json.dumps\<close> rejects the object with a TypeError\<close>

datatype pyval =
    PNone
  | PBool bool
  | PInt int
  | PStr string
  | POther string
    \<comment> \<open>a value of any other non-container type (float, date, binary)\<close>
  | PList "pyval list"
  | PDict "(pykey \<times> pyval) list"

text \<open>A finding is the dictionary with the keys \<open>file\<close>, \<open>service\<close>, \<open>reason\<close>
  appended at lines 105-109.\<close>

record finding =
  file' :: string
  service :: pykey
  reason :: string

datatype exn = FileNotFoundError | YAMLError | JSONDecodeError | TypeError | OtherException

text \<open>
  The environment of a run: what \<open>open(path, 'r')\<close> followed by reading the file
  yields (the decoded text, newlines translated to \<open>\n\<close>, or the exception raised),
  whether writing to a path succeeds, and the two parsers of the libraries
  (\<open>yaml.safe_load\<close>, \<open>json.load\<close>), which are not part of the program.
\<close>

record env =
  read_file :: "string \<Rightarrow> exn + string"
  can_write :: "string \<Rightarrow> bool"
  yaml_safe_load :: "string \<Rightarrow> exn + pyval"
  json_load :: "string \<Rightarrow> exn + pyval"

section \<open>Library functions used by the program\<close>

subsection \<open>\<open>str.lower\<close> and \<open>str.strip\<close> on ASCII text\<close>

definition ascii_uppercase :: string where
  "ascii_uppercase = ''ABCDEFGHIJKLMNOPQRSTUVWXYZ''"

definition ascii_lowercase :: string where
  "ascii_lowercase = ''abcdefghijklmnopqrstuvwxyz''"

definition lower_char :: "char \<Rightarrow> char" where
  "lower_char c =
     (case map_of (zip ascii_uppercase ascii_lowercase) c of Some l \<Rightarrow> l | None \<Rightarrow> c)"

definition lower :: "string \<Rightarrow> string" where
  "lower s = map lower_char s"

text \<open>The ASCII characters for which \<open>str.isspace\<close> holds: tab, line feed, vertical
  tab, form feed, carriage return, the four separators \<open>0x1C\<close> to \<open>0x1F\<close>, and space.\<close>

definition isspace :: "char \<Rightarrow> bool" where
  "isspace c \<longleftrightarrow>
     c \<in> set [CHR 0x09, CHR 0x0A, CHR 0x0B, CHR 0x0C, CHR 0x0D,
               CHR 0x1C, CHR 0x1D, CHR 0x1E, CHR 0x1F, CHR 0x20]"

definition strip :: "string \<Rightarrow> string" where
  "strip s = rev (dropWhile isspace (rev (dropWhile isspace s)))"

subsection \<open>\<open>os.path.splitext\<close> (POSIX)\<close>

text \<open>\<open>p.rfind(c)\<close>: the index of the last occurrence of \<open>c\<close>, or \<open>-1\<close>.\<close>

fun rfind :: "string \<Rightarrow> char \<Rightarrow> int" where
  "rfind [] c = - 1"
| "rfind (x # xs) c =
     (let r = rfind xs c in if 0 \<le> r then r + 1 else if x = c then 0 else - 1)"

text \<open>
  The loop of \<open>genericpath._splitext\<close> that skips the leading dots of the file name:
  \<^verbatim>\<open>
    while filenameIndex < dotIndex:
        if p[filenameIndex:filenameIndex+1] != extsep:
            return p[:dotIndex], p[dotIndex:]
        filenameIndex += 1
    return p, p[:0]
  \<close>
\<close>

function splitext_loop :: "string \<Rightarrow> int \<Rightarrow> int \<Rightarrow> string \<times> string" where
  "splitext_loop p filenameIndex dotIndex =
     (if filenameIndex < dotIndex then
        (if take 1 (drop (nat filenameIndex) p) \<noteq> ''.''
         then (take (nat dotIndex) p, drop (nat dotIndex) p)
         else splitext_loop p (filenameIndex + 1) dotIndex)
      else (p, []))"
  by pat_completeness auto
termination
  by (relation "measure (\<lambda>(p, i, d). nat (d - i))") auto

definition splitext :: "string \<Rightarrow> string \<times> string" where
  "splitext p =
     (let sepIndex = rfind p (CHR ''/'');
          dotIndex = rfind p (CHR ''.'')
      in if dotIndex > sepIndex then splitext_loop p (sepIndex + 1) dotIndex else (p, []))"

section \<open>The program\<close>

subsection \<open>\<open>is_service_active\<close> (lines 26-40)\<close>

text \<open>\<open>service_name in active_services\<close>: the set holds strings only, and a key
  that is not a string is equal to no string.\<close>

fun key_in :: "pykey \<Rightarrow> string set \<Rightarrow> bool" where
  "key_in (KStr s) A = (s \<in> A)"
| "key_in _ A = False"

fun is_service_active :: "pykey \<Rightarrow> string set option \<Rightarrow> bool" where
  "is_service_active service_name None = True"
| "is_service_active service_name (Some active_services) = key_in service_name active_services"

subsection \<open>\<open>load_active_services\<close> (lines 42-64)\<close>

text \<open>Iterating over a text file yields its lines, each with its terminating
  newline; a last line without newline is yielded as it is.\<close>

fun file_lines :: "string \<Rightarrow> string list" where
  "file_lines [] = []"
| "file_lines (c # cs) =
     (if c = CHR 0x0A then [c] # file_lines cs
      else (case file_lines cs of [] \<Rightarrow> [[c]] | l # ls \<Rightarrow> (c # l) # ls))"

definition load_active_services :: "env \<Rightarrow> string \<Rightarrow> string set option" where
  "load_active_services e service_list_file =
     (case read_file e service_list_file of
        Inl FileNotFoundError \<Rightarrow> None
      | Inl _ \<Rightarrow> None
      | Inr text \<Rightarrow>
          (let services = set (map strip (filter (\<lambda>line. strip line \<noteq> []) (file_lines text)))
           in if services = {} then None else Some services))"

subsection \<open>\<open>analyze_config_file\<close> (lines 67-115)\<close>

definition REASON :: string where
  "REASON = ''Service is enabled in configuration but not listed as active.''"

text \<open>\<open>isinstance(enabled, bool) and enabled\<close>\<close>

fun enabled_true :: "pyval \<Rightarrow> bool" where
  "enabled_true (PBool b) = b"
| "enabled_true _ = False"

text \<open>The loop of lines 102-109 over \<open>data.items()\<close>; the last argument is the list
  \<open>inactive_services\<close> built so far.\<close>

fun items_loop ::
  "string \<Rightarrow> string set option \<Rightarrow> (pykey \<times> pyval) list \<Rightarrow> finding list \<Rightarrow> finding list" where
  "items_loop config_file active_services [] inactive_services = inactive_services"
| "items_loop config_file active_services ((service_name, enabled) # rest) inactive_services =
     items_loop config_file active_services rest
       (if enabled_true enabled then
          (if \<not> is_service_active service_name active_services
           then inactive_services @
                  [\<lparr>file' = config_file, service = service_name, reason = REASON\<rparr>]
           else inactive_services)
        else inactive_services)"

text \<open>
  Lines 80-97: the extension is computed, the file opened and parsed. The result is
  \<open>Inr (Some data)\<close> when parsing succeeded, \<open>Inr None\<close> where the source returns
  \<open>[]\<close> at once (a parse error of the selected parser, an unsupported extension), and
  \<open>Inl e\<close> when exception \<open>e\<close> leaves the \<open>with\<close> block for the outer handlers.
\<close>

definition parse_config :: "env \<Rightarrow> string \<Rightarrow> exn + pyval option" where
  "parse_config e config_file =
     (let file_ext = lower (snd (splitext config_file)) in
      case read_file e config_file of
        Inl ex \<Rightarrow> Inl ex
      | Inr text \<Rightarrow>
          if file_ext \<in> set [''.yaml'', ''.yml''] then
            (case yaml_safe_load e text of
               Inl YAMLError \<Rightarrow> Inr None
             | Inl ex \<Rightarrow> Inl ex
             | Inr data \<Rightarrow> Inr (Some data))
          else if file_ext = ''.json'' then
            (case json_load e text of
               Inl JSONDecodeError \<Rightarrow> Inr None
             | Inl ex \<Rightarrow> Inl ex
             | Inr data \<Rightarrow> Inr (Some data))
          else Inr None)"

definition analyze_config_file :: "env \<Rightarrow> string \<Rightarrow> string set option \<Rightarrow> finding list" where
  "analyze_config_file e config_file active_services =
     (let inactive_services = [] in
      case parse_config e config_file of
        Inl FileNotFoundError \<Rightarrow> inactive_services
      | Inl _ \<Rightarrow> inactive_services
      | Inr None \<Rightarrow> []
      | Inr (Some data) \<Rightarrow>
          (case data of
             PDict items \<Rightarrow> items_loop config_file active_services items inactive_services
           | _ \<Rightarrow> inactive_services))"

subsection \<open>Formatting the output (lines 145-157)\<close>

text \<open>\<open>str(n)\<close> of an integer, as the f-string and \<open>json.dumps\<close> print it.\<close>

fun show_nat :: "nat \<Rightarrow> string" where
  "show_nat n =
     (if n < 10 then [''0123456789'' ! n]
      else show_nat (n div 10) @ [''0123456789'' ! (n mod 10)])"

definition show_int :: "int \<Rightarrow> string" where
  "show_int i = (if i < 0 then CHR ''-'' # show_nat (nat (- i)) else show_nat (nat i))"

text \<open>\<open>str(k)\<close>, which the f-strings of lines 152-154 apply to a value.\<close>

fun py_str :: "pykey \<Rightarrow> string" where
  "py_str (KStr s) = s"
| "py_str (KInt i) = show_int i"
| "py_str (KBool b) = (if b then ''True'' else ''False'')"
| "py_str KNone = ''None''"
| "py_str (KOther s j) = s"

text \<open>
  \<open>json.dumps\<close> of a string with the default \<open>ensure_ascii\<close>: the quote and the
  backslash are escaped, the control characters \<open>\b \f \n \r \t\<close> have short escapes, and
  every other character outside \<open>0x20 .. 0x7E\<close> is written \<open>\u00XX\<close>.
\<close>

definition json_escape_char :: "char \<Rightarrow> string" where
  "json_escape_char c =
     (let n = (of_char c :: nat) in
      if c = CHR 0x5C then [CHR 0x5C, CHR 0x5C]
      else if c = CHR 0x22 then [CHR 0x5C, CHR 0x22]
      else if c = CHR 0x08 then [CHR 0x5C, CHR ''b'']
      else if c = CHR 0x0C then [CHR 0x5C, CHR ''f'']
      else if c = CHR 0x0A then [CHR 0x5C, CHR ''n'']
      else if c = CHR 0x0D then [CHR 0x5C, CHR ''r'']
      else if c = CHR 0x09 then [CHR 0x5C, CHR ''t'']
      else if n < 32 \<or> 126 < n then
        [CHR 0x5C, CHR ''u'', CHR ''0'', CHR ''0'',
         ''0123456789abcdef'' ! (n div 16), ''0123456789abcdef'' ! (n mod 16)]
      else [c])"

definition json_string :: "string \<Rightarrow> string" where
  "json_string s = [CHR 0x22] @ concat (map json_escape_char s) @ [CHR 0x22]"

fun json_key :: "pykey \<Rightarrow> exn + string" where
  "json_key (KStr s) = Inr (json_string s)"
| "json_key (KInt i) = Inr (show_int i)"
| "json_key (KBool b) = Inr (if b then ''true'' else ''false'')"
| "json_key KNone = Inr ''null''"
| "json_key (KOther s None) = Inl TypeError"
| "json_key (KOther s (Some j)) = Inr j"

text \<open>\<open>sep.join(xs)\<close>\<close>

fun join :: "string \<Rightarrow> string list \<Rightarrow> string" where
  "join sep [] = []"
| "join sep [x] = x"
| "join sep (x # y # ys) = x @ sep @ join sep (y # ys)"

text \<open>One finding as \<open>json.dumps(..., indent=4)\<close> prints it at nesting level 1.\<close>

definition json_finding :: "finding \<Rightarrow> exn + string" where
  "json_finding f =
     (case json_key (service f) of
        Inl ex \<Rightarrow> Inl ex
      | Inr sv \<Rightarrow>
          Inr (''{'' @ [CHR 0x0A] @ ''        '' @
               join ('','' @ [CHR 0x0A] @ ''        '')
                 [json_string ''file'' @ '': '' @ json_string (file' f),
                  json_string ''service'' @ '': '' @ sv,
                  json_string ''reason'' @ '': '' @ json_string (reason f)] @
               [CHR 0x0A] @ ''    }''))"

text \<open>The first error among the results, or all the values.\<close>

fun sequence :: "(exn + 'a) list \<Rightarrow> exn + 'a list" where
  "sequence [] = Inr []"
| "sequence (Inl ex # rs) = Inl ex"
| "sequence (Inr x # rs) = (case sequence rs of Inl ex \<Rightarrow> Inl ex | Inr xs \<Rightarrow> Inr (x # xs))"

definition json_dumps :: "finding list \<Rightarrow> exn + string" where
  "json_dumps fs =
     (if fs = [] then Inr ''[]''
      else
        (case sequence (map json_finding fs) of
           Inl ex \<Rightarrow> Inl ex
         | Inr ds \<Rightarrow>
             Inr (''['' @ [CHR 0x0A] @ ''    '' @ join ('','' @ [CHR 0x0A] @ ''    '') ds @
                  [CHR 0x0A] @ '']'')))"

text \<open>The loop of lines 151-155.\<close>

fun text_loop :: "finding list \<Rightarrow> string \<Rightarrow> string" where
  "text_loop [] output_data = output_data"
| "text_loop (f # fs) output_data =
     text_loop fs
       (output_data @ ''  File: '' @ file' f @ [CHR 0x0A]
                    @ ''  Service: '' @ py_str (service f) @ [CHR 0x0A]
                    @ ''  Reason: '' @ reason f @ [CHR 0x0A]
                    @ [CHR 0x0A])"

datatype fmt = Text | Json

definition format_output :: "fmt \<Rightarrow> finding list \<Rightarrow> exn + string" where
  "format_output fm all_inactive_services =
     (if fm = Json then json_dumps all_inactive_services
      else
        (if all_inactive_services \<noteq> []
         then Inr (text_loop all_inactive_services
                     (''Inactive Service Configurations Found:'' @ [CHR 0x0A]))
         else Inr ''No inactive service configurations found.''))"

subsection \<open>\<open>main\<close> (lines 118-173)\<close>

text \<open>The namespace that \<open>parser.parse_args()\<close> returns. An option that was not given
  is \<open>None\<close>; \<open>--format\<close> is restricted by \<open>choices\<close> and defaults to \<open>text\<close>.\<close>

record args =
  config_files :: "string list"
  service_list :: "string option"
  output' :: "string option"
  format :: fmt
  debug :: bool

text \<open>
  What a run does, as far as it is observed here: the exit status, the configuration
  files handed to \<open>analyze_config_file\<close> (in order), the list
  \<open>all_inactive_services\<close>, the string passed to \<open>print\<close>, and the path and
  content written to the output file. Logging is not modelled.
\<close>

record run =
  exit_code :: nat
  analyzed :: "string list"
  all_inactive_services :: "finding list"
  printed :: "string option"
  written :: "(string \<times> string) option"

text \<open>The truth value of an optional string in an \<open>if\<close>: \<open>None\<close> and the empty
  string are false.\<close>

fun truthy :: "string option \<Rightarrow> bool" where
  "truthy None = False"
| "truthy (Some s) = (s \<noteq> [])"

text \<open>
  \<open>setup_argparse\<close> declares \<open>config_files\<close> with \<open>nargs='+'\<close> (line 19): when no
  positional argument is given, \<open>parse_args\<close> reports a usage error and exits with
  status 2 (the behaviour of \<open>ArgumentParser.error\<close>). The argument is the namespace
  the command line would give without that check.
\<close>

definition parse_args :: "args \<Rightarrow> nat + args" where
  "parse_args given = (if config_files given = [] then Inl 2 else Inr given)"

text \<open>The run ends through \<open>sys.exit(code)\<close> before any file is analyzed.\<close>

definition exit_early :: "nat \<Rightarrow> run" where
  "exit_early code =
     \<lparr>exit_code = code, analyzed = [], all_inactive_services = [], printed = None,
      written = None\<rparr>"

text \<open>The loop of lines 142-143; the last argument is \<open>all_inactive_services\<close>.\<close>

fun files_loop :: "env \<Rightarrow> string set option \<Rightarrow> string list \<Rightarrow> finding list \<Rightarrow> finding list" where
  "files_loop e active_services [] all_inactive = all_inactive"
| "files_loop e active_services (config_file # rest) all_inactive =
     files_loop e active_services rest
       (all_inactive @ analyze_config_file e config_file active_services)"

text \<open>Lines 141-173, once \<open>active_services\<close> is settled. An exception that
  \<open>json.dumps\<close> raises is caught nowhere: the interpreter ends with status 1 and
  nothing is printed or written.\<close>

definition report :: "env \<Rightarrow> args \<Rightarrow> string set option \<Rightarrow> run" where
  "report e a active_services =
     (let all_inactive = files_loop e active_services (config_files a) [];
          r = \<lparr>exit_code = 1, analyzed = config_files a, all_inactive_services = all_inactive,
               printed = None, written = None\<rparr>
      in case format_output (format a) all_inactive of
           Inl ex \<Rightarrow> r
         | Inr output_data \<Rightarrow>
             (if truthy (output' a) then
                (if can_write e (the (output' a))
                 then r\<lparr>written := Some (the (output' a), output_data),
                        exit_code := (if all_inactive \<noteq> [] then 1 else 0)\<rparr>
                 else r)
              else r\<lparr>printed := Some output_data,
                     exit_code := (if all_inactive \<noteq> [] then 1 else 0)\<rparr>))"

text \<open>Lines 129-139 and the rest of \<open>main\<close>, for the namespace \<open>a\<close>.\<close>

definition main_args :: "env \<Rightarrow> args \<Rightarrow> run" where
  "main_args e a =
     (if config_files a = [] then exit_early 1
      else if truthy (service_list a) then
        (let active_services = load_active_services e (the (service_list a)) in
         if active_services = None \<and> truthy (service_list a) then exit_early 1
         else report e a active_services)
      else report e a None)"

definition main :: "env \<Rightarrow> args \<Rightarrow> run" where
  "main e given =
     (case parse_args given of
        Inl code \<Rightarrow> exit_early code
      | Inr a \<Rightarrow> main_args e a)"

section \<open>Notions used in the statements\<close>

text \<open>The entries of a mapping that the loop reports, and the finding it appends for
  an entry.\<close>

definition reported :: "string set option \<Rightarrow> pykey \<times> pyval \<Rightarrow> bool" where
  "reported A kv \<longleftrightarrow> enabled_true (snd kv) \<and> \<not> is_service_active (fst kv) A"

definition mk_finding :: "string \<Rightarrow> pykey \<times> pyval \<Rightarrow> finding" where
  "mk_finding cf kv = \<lparr>file' = cf, service = fst kv, reason = REASON\<rparr>"

text \<open>A string without leading or trailing white space.\<close>

definition trimmed :: "string \<Rightarrow> bool" where
  "trimmed s \<longleftrightarrow> s = [] \<or> (\<not> isspace (hd s) \<and> \<not> isspace (last s))"

text \<open>A letter-case variant of a lower-case string: each character is the character
  of the reference or its upper-case letter.\<close>

definition same_letter :: "char \<Rightarrow> char \<Rightarrow> bool" where
  "same_letter a b \<longleftrightarrow> a = b \<or> (a, b) \<in> set (zip ascii_uppercase ascii_lowercase)"

definition case_variant :: "string \<Rightarrow> string \<Rightarrow> bool" where
  "case_variant s t \<longleftrightarrow> list_all2 same_letter s t"

text \<open>The active-service source was given (a non-empty path) and loading it failed;
  an output file was given (a non-empty path) and writing it failed.\<close>

definition load_failed :: "env \<Rightarrow> args \<Rightarrow> bool" where
  "load_failed e a \<longleftrightarrow>
     truthy (service_list a) \<and> load_active_services e (the (service_list a)) = None"

definition write_failed :: "env \<Rightarrow> args \<Rightarrow> bool" where
  "write_failed e a \<longleftrightarrow> truthy (output' a) \<and> \<not> can_write e (the (output' a))"

text \<open>
  The problems of a single configuration file: it cannot be read (missing or
  unreadable); its extension is not supported; the parser selected by the extension
  rejects its content; the document is not a mapping.
\<close>

definition per_file_problem :: "env \<Rightarrow> string \<Rightarrow> bool" where
  "per_file_problem e config_file \<longleftrightarrow>
     (\<exists>ex. read_file e config_file = Inl ex)
     \<or> lower (snd (splitext config_file)) \<notin> {''.yaml'', ''.yml'', ''.json''}
     \<or> (\<exists>content ex. read_file e config_file = Inr content
           \<and> lower (snd (splitext config_file)) \<in> {''.yaml'', ''.yml''}
           \<and> yaml_safe_load e content = Inl ex)
     \<or> (\<exists>content ex. read_file e config_file = Inr content
           \<and> lower (snd (splitext config_file)) = ''.json''
           \<and> json_load e content = Inl ex)
     \<or> (\<exists>d. parse_config e config_file = Inr (Some d) \<and> (\<forall>items. d \<noteq> PDict items))"

subsection \<open>A concrete environment\<close>

text \<open>
  The configuration of the specification's scenario A, as a YAML flow mapping, and a
  mapping with truthy values that are not booleans. The parsers of this environment
  know these documents only.
\<close>

definition services_text :: string where
  "services_text = ''{ftpd: true, sshd: true, cron: false}''"

definition services_items :: "(pykey \<times> pyval) list" where
  "services_items = [(KStr ''ftpd'', PBool True), (KStr ''sshd'', PBool True),
                     (KStr ''cron'', PBool False)]"

definition truthy_text :: string where
  "truthy_text = ''{a: !!str true, b: 1, c: !!str yes, d: true}''"

definition truthy_items :: "(pykey \<times> pyval) list" where
  "truthy_items = [(KStr ''a'', PStr ''true''), (KStr ''b'', PInt 1),
                   (KStr ''c'', PStr ''yes''), (KStr ''d'', PBool True)]"

definition example_yaml :: "string \<Rightarrow> exn + pyval" where
  "example_yaml text =
     (if text = services_text then Inr (PDict services_items)
      else if text = truthy_text then Inr (PDict truthy_items)
      else if text = ''[true]'' then Inr (PList [PBool True])
      else if text = ''true'' then Inr (PBool True)
      else Inl YAMLError)"

definition example_json :: "string \<Rightarrow> exn + pyval" where
  "example_json text =
     (if text = ''[true]'' then Inr (PList [PBool True])
      else if text = ''true'' then Inr (PBool True)
      else Inl JSONDecodeError)"

definition example_files :: "string \<Rightarrow> exn + string" where
  "example_files path =
     (if path \<in> set [''conf.yaml'', ''etc/Conf.YAML'', ''conf.Yml'', ''conf.ini'']
        then Inr services_text
      else if path = ''truthy.yaml'' then Inr truthy_text
      else if path \<in> set [''list.yaml'', ''list.JSON''] then Inr ''[true]''
      else if path = ''scalar.json'' then Inr ''true''
      else if path \<in> set [''broken.yaml'', ''broken.json''] then Inr ''{ftpd: tru''
      else if path = ''active.txt''
        then Inr (''sshd'' @ [CHR 0x0A] @ [CHR 0x0A] @ ''  cron  '' @ [CHR 0x0A] @ ''sshd'')
      else if path = ''blank.txt'' then Inr (''  '' @ [CHR 0x0A] @ [CHR 0x0A])
      else if path = ''locked.txt'' then Inl OtherException
      else Inl FileNotFoundError)"

definition example_env :: env where
  "example_env =
     \<lparr>read_file = example_files, can_write = (\<lambda>path. path = ''out.txt''),
      yaml_safe_load = example_yaml, json_load = example_json\<rparr>"

text \<open>The command line of scenario A: one configuration file, the active-service
  list, text output on the standard output.\<close>

definition example_args :: args where
  "example_args =
     \<lparr>config_files = [''conf.yaml''], service_list = Some ''active.txt'', output' = None,
      format = Text, debug = False\<rparr>"

section \<open>The detection loop\<close>

lemma enabled_true_iff: "enabled_true v \<longleftrightarrow> v = PBool True"
  by (cases v) auto

lemma items_loop_append:
  "items_loop cf A items acc = acc @ items_loop cf A items []"
proof (induction items arbitrary: acc)
  case Nil
  show ?case by simp
next
  case (Cons kv items)
  obtain k v where kv: "kv = (k, v)" by (cases kv)
  show ?case
    unfolding kv items_loop.simps
    by (subst Cons.IH, subst (2) Cons.IH) simp
qed

lemma items_loop_filter:
  "items_loop cf A items [] = map (mk_finding cf) (filter (reported A) items)"
proof (induction items)
  case Nil
  show ?case by simp
next
  case (Cons kv items)
  obtain k v where kv: "kv = (k, v)" by (cases kv)
  have "items_loop cf A (kv # items) [] =
        (if reported A kv then [mk_finding cf kv] else []) @ items_loop cf A items []"
    unfolding kv items_loop.simps
    by (subst items_loop_append) (simp add: reported_def mk_finding_def)
  then show ?case using Cons.IH by simp
qed

lemma filter_key_distinct:
  "distinct (map fst items) \<Longrightarrow>
   filter (\<lambda>kv. fst kv = n \<and> Q (snd kv)) items =
     (case map_of items n of Some v \<Rightarrow> if Q v then [(n, v)] else [] | None \<Rightarrow> [])"
proof (induction items)
  case Nil
  show ?case by simp
next
  case (Cons kv items)
  obtain k v where kv: "kv = (k, v)" by (cases kv)
  show ?case
  proof (cases "k = n")
    case True
    with Cons.prems kv have "n \<notin> fst ` set items" by auto
    then have "filter (\<lambda>kv. fst kv = n \<and> Q (snd kv)) items = []"
      by (auto simp: filter_empty_conv)
    with True kv show ?thesis by simp
  next
    case False
    with Cons kv show ?thesis by simp
  qed
qed

lemma analyze_config_file_cases:
  "analyze_config_file e cf A =
     (case parse_config e cf of
        Inr (Some (PDict items)) \<Rightarrow> items_loop cf A items []
      | _ \<Rightarrow> [])"
  by (simp add: analyze_config_file_def split: sum.splits option.splits pyval.splits exn.splits)

lemma items_loop_for_key:
  assumes "distinct (map fst items)"
  shows "filter (\<lambda>f. service f = n) (items_loop cf A items []) =
     (if map_of items n = Some (PBool True) \<and> A \<noteq> None \<and> \<not> key_in n (the A)
      then [\<lparr>file' = cf, service = n, reason = REASON\<rparr>] else [])"
proof -
  have "filter (\<lambda>f. service f = n) (items_loop cf A items []) =
        map (mk_finding cf) (filter (\<lambda>kv. fst kv = n \<and> reported A (n, snd kv)) items)"
    unfolding items_loop_filter filter_map filter_filter
    by (rule arg_cong [where f = "map (mk_finding cf)"], rule filter_cong)
       (auto simp: mk_finding_def reported_def)
  also have "\<dots> = map (mk_finding cf)
       (case map_of items n of
          Some v \<Rightarrow> if reported A (n, v) then [(n, v)] else []
        | None \<Rightarrow> [])"
    using filter_key_distinct [OF assms, of n "\<lambda>v. reported A (n, v)"] by simp
  also have "\<dots> = (if map_of items n = Some (PBool True) \<and> A \<noteq> None \<and> \<not> key_in n (the A)
      then [\<lparr>file' = cf, service = n, reason = REASON\<rparr>] else [])"
    by (cases A)
       (auto simp: reported_def mk_finding_def enabled_true_iff split: option.splits)
  finally show ?thesis .
qed

lemma key_in_mono: "key_in k A \<Longrightarrow> A \<subseteq> B \<Longrightarrow> key_in k B"
  by (cases k) auto

lemma analyze_config_file_None: "analyze_config_file e cf None = []"
  by (simp add: analyze_config_file_cases items_loop_filter reported_def
           split: sum.splits option.splits pyval.splits)

subsection \<open>Loading the active services\<close>

lemma usable_set:
  "set (map strip (filter (\<lambda>line. strip line \<noteq> []) (file_lines content))) =
   {strip line | line. line \<in> set (file_lines content) \<and> strip line \<noteq> []}"
  by (simp add: image_Collect [symmetric] Setcompr_eq_image)

lemma load_active_services_Inr:
  "read_file e path = Inr content \<Longrightarrow>
   load_active_services e path =
     (if \<forall>line \<in> set (file_lines content). strip line = [] then None
      else Some {strip line | line. line \<in> set (file_lines content) \<and> strip line \<noteq> []})"
proof -
  assume r: "read_file e path = Inr content"
  let ?xs = "filter (\<lambda>line. strip line \<noteq> []) (file_lines content)"
  have e: "(set (map strip ?xs) = {}) = (\<forall>line \<in> set (file_lines content). strip line = [])"
    by (simp add: filter_empty_conv Ball_def)
  have "load_active_services e path =
          (if set (map strip ?xs) = {} then None else Some (set (map strip ?xs)))"
    by (simp add: load_active_services_def r Let_def)
  then have "load_active_services e path =
          (if \<forall>line \<in> set (file_lines content). strip line = [] then None
           else Some (set (map strip ?xs)))"
    by (simp only: e)
  then show ?thesis
    by (simp only: usable_set)
qed

lemma strip_trimmed: "trimmed (strip s)"
proof (cases "strip s = []")
  case True
  then show ?thesis by (simp add: trimmed_def)
next
  case False
  define t where "t = dropWhile isspace s"
  define u where "u = dropWhile isspace (rev t)"
  have s: "strip s = rev u" by (simp add: strip_def t_def u_def)
  with False have u: "u \<noteq> []" by simp
  then have t: "t \<noteq> []" by (auto simp: u_def)
  have "\<not> isspace (hd u)" using u unfolding u_def by (rule hd_dropWhile)
  then have l: "\<not> isspace (last (strip s))" using u by (simp add: s last_rev)
  have ht: "\<not> isspace (hd t)" using t unfolding t_def by (rule hd_dropWhile)
  have "hd t \<in> set (rev t)" using t by simp
  then have "last u = last (rev t)" unfolding u_def using ht by (rule dropWhile_last)
  then have "hd (strip s) = hd t" using u t by (simp add: s hd_rev last_rev)
  with ht l False show ?thesis by (simp add: trimmed_def)
qed

lemma load_active_services_Inl:
  "read_file e path = Inl ex \<Longrightarrow> load_active_services e path = None"
  by (simp add: load_active_services_def split: exn.splits)

subsection \<open>The run\<close>

lemma files_loop_concat:
  "files_loop e A fs acc = acc @ concat (map (\<lambda>f. analyze_config_file e f A) fs)"
  by (induction fs arbitrary: acc) simp_all

lemma sequence_Inl: "sequence rs = Inl ex \<Longrightarrow> rs \<noteq> []"
  by (cases rs) simp_all

lemma format_output_Inl: "format_output fm fs = Inl ex \<Longrightarrow> fs \<noteq> []"
  by (auto simp: format_output_def json_dumps_def split: if_splits)

lemma format_output_Nil:
  "format_output fm [] =
     Inr (if fm = Json then ''[]'' else ''No inactive service configurations found.'')"
  by (simp add: format_output_def json_dumps_def)

lemma report_fields:
  "analyzed (report e a A) = config_files a"
  "all_inactive_services (report e a A) = concat (map (\<lambda>f. analyze_config_file e f A) (config_files a))"
  by (simp_all add: report_def Let_def files_loop_concat split: sum.splits)

lemma report_exit_code:
  "exit_code (report e a A) =
     (if all_inactive_services (report e a A) \<noteq> [] \<or> write_failed e a then 1 else 0)"
proof (cases "format_output (format a) (files_loop e A (config_files a) [])")
  case (Inl ex)
  then have "files_loop e A (config_files a) [] \<noteq> []" by (rule format_output_Inl)
  with Inl show ?thesis by (simp add: report_def Let_def)
next
  case (Inr output_data)
  then show ?thesis by (simp add: report_def Let_def write_failed_def)
qed

lemma main_unfold:
  "config_files a \<noteq> [] \<Longrightarrow>
   main e a =
     (if load_failed e a then exit_early 1
      else report e a (if truthy (service_list a)
                       then load_active_services e (the (service_list a)) else None))"
  by (simp add: main_def parse_args_def main_args_def load_failed_def Let_def)

lemma main_exit_code:
  assumes "config_files a \<noteq> []"
  shows "exit_code (main e a) =
     (if load_failed e a \<or> all_inactive_services (main e a) \<noteq> [] \<or> write_failed e a
      then 1 else 0)"
proof (cases "load_failed e a")
  case True
  with assms show ?thesis by (simp add: main_unfold exit_early_def)
next
  case False
  with assms show ?thesis by (simp only: main_unfold if_False report_exit_code simp_thms)
qed

lemma report_output:
  assumes "files_loop e A (config_files a) [] = []"
  shows "report e a A =
     \<lparr>exit_code = (if write_failed e a then 1 else 0), analyzed = config_files a,
      all_inactive_services = [],
      printed = (if truthy (output' a) then None
                 else Some (if format a = Json then ''[]''
                            else ''No inactive service configurations found.'')),
      written = (if truthy (output' a) \<and> can_write e (the (output' a))
                 then Some (the (output' a),
                            if format a = Json then ''[]''
                            else ''No inactive service configurations found.'')
                 else None)\<rparr>"
  by (simp add: report_def assms format_output_Nil write_failed_def)

subsection \<open>Problems of a single file\<close>

lemma per_file_problem_parse:
  assumes "per_file_problem e config_file"
  shows "parse_config e config_file \<noteq> Inr (Some (PDict items))"
proof -
  define ext where "ext = lower (snd (splitext config_file))"
  have p: "parse_config e config_file =
     (case read_file e config_file of
        Inl ex \<Rightarrow> Inl ex
      | Inr content \<Rightarrow>
          if ext = ''.yaml'' \<or> ext = ''.yml'' then
            (case yaml_safe_load e content of
               Inl YAMLError \<Rightarrow> Inr None | Inl ex \<Rightarrow> Inl ex | Inr d \<Rightarrow> Inr (Some d))
          else if ext = ''.json'' then
            (case json_load e content of
               Inl JSONDecodeError \<Rightarrow> Inr None | Inl ex \<Rightarrow> Inl ex | Inr d \<Rightarrow> Inr (Some d))
          else Inr None)"
    unfolding parse_config_def ext_def Let_def
    by (cases "read_file e config_file") simp_all
  from assms consider
      (unreadable) ex where "read_file e config_file = Inl ex"
    | (unsupported) "ext \<noteq> ''.yaml''" "ext \<noteq> ''.yml''" "ext \<noteq> ''.json''"
    | (yaml) content ex where "read_file e config_file = Inr content"
        "ext = ''.yaml'' \<or> ext = ''.yml''" "yaml_safe_load e content = Inl ex"
    | (json) content ex where "read_file e config_file = Inr content"
        "ext = ''.json''" "json_load e content = Inl ex"
    | (shape) d where "parse_config e config_file = Inr (Some d)" "\<forall>items. d \<noteq> PDict items"
    unfolding per_file_problem_def ext_def [symmetric] by auto
  then show ?thesis
  proof cases
    case unreadable
    then show ?thesis by (simp add: p)
  next
    case unsupported
    then show ?thesis by (simp add: p split: sum.splits)
  next
    case yaml
    then show ?thesis by (cases ex) (auto simp: p)
  next
    case json
    then show ?thesis by (cases ex) (auto simp: p)
  next
    case shape
    then show ?thesis by simp
  qed
qed

lemma per_file_problem_analyze:
  "per_file_problem e config_file \<Longrightarrow> analyze_config_file e config_file A = []"
  using per_file_problem_parse [of e config_file]
  by (simp add: analyze_config_file_cases split: sum.splits option.splits pyval.splits)

lemma report_skip:
  assumes "analyze_config_file e config_file A = []"
  shows "report e (a\<lparr>config_files := xs @ config_file # ys\<rparr>) A =
         (report e (a\<lparr>config_files := xs @ ys\<rparr>) A)\<lparr>analyzed := xs @ config_file # ys\<rparr>"
  by (simp add: report_def Let_def files_loop_concat assms split: sum.splits)

lemma load_failed_config_files [simp]:
  "load_failed e (a\<lparr>config_files := fs\<rparr>) = load_failed e a"
  by (simp add: load_failed_def)

subsection \<open>Letter case of the extension\<close>

lemmas ext_defs = splitext_def lower_def lower_char_def ascii_uppercase_def ascii_lowercase_def

lemma distinct_uppercase: "distinct (map fst (zip ascii_uppercase ascii_lowercase))"
  by (simp add: ascii_uppercase_def ascii_lowercase_def)

lemma lower_char_same_letter:
  assumes "same_letter a b" and "lower_char b = b"
  shows "lower_char a = b"
proof (cases "a = b")
  case True
  with assms(2) show ?thesis by simp
next
  case False
  with assms(1) have "(a, b) \<in> set (zip ascii_uppercase ascii_lowercase)"
    by (simp add: same_letter_def)
  then have "map_of (zip ascii_uppercase ascii_lowercase) a = Some b"
    using distinct_uppercase by simp
  then show ?thesis by (simp add: lower_char_def)
qed

lemma lower_case_variant:
  assumes "case_variant s t" and "lower t = t"
  shows "lower s = t"
  using assms unfolding case_variant_def lower_def
proof (induction s t rule: list_all2_induct)
  case Nil
  show ?case by simp
next
  case (Cons a s b t)
  then show ?case by (simp add: lower_char_same_letter)
qed

lemma lower_extensions:
  "lower ''.yaml'' = ''.yaml''" "lower ''.yml'' = ''.yml''" "lower ''.json'' = ''.json''"
  by (simp_all add: ext_defs)

subsection \<open>Evaluating the concrete environment\<close>

lemmas example_defs =
  example_env_def example_files_def example_yaml_def example_json_def
  services_text_def services_items_def truthy_text_def truthy_items_def

lemma parse_conf_yaml:
  "parse_config example_env ''conf.yaml'' = Inr (Some (PDict services_items))"
  by (simp add: parse_config_def example_defs ext_defs)

lemma parse_truthy_yaml:
  "parse_config example_env ''truthy.yaml'' = Inr (Some (PDict truthy_items))"
  by (simp add: parse_config_def example_defs ext_defs)

lemma load_active_txt:
  "load_active_services example_env ''active.txt'' = Some {''sshd'', ''cron''}"
  by (simp add: load_active_services_def example_defs strip_def isspace_def insert_commute)

lemma load_blank_txt: "load_active_services example_env ''blank.txt'' = None"
  by (simp add: load_active_services_def example_defs strip_def isspace_def)

lemma load_missing_txt: "load_active_services example_env ''missing.txt'' = None"
  by (simp add: load_active_services_def example_defs)

lemma analyze_conf_yaml:
  "analyze_config_file example_env ''conf.yaml'' A =
     (if A \<noteq> None \<and> ''ftpd'' \<notin> the A
      then [\<lparr>file' = ''conf.yaml'', service = KStr ''ftpd'', reason = REASON\<rparr>] else []) @
     (if A \<noteq> None \<and> ''sshd'' \<notin> the A
      then [\<lparr>file' = ''conf.yaml'', service = KStr ''sshd'', reason = REASON\<rparr>] else [])"
  by (cases A) (simp_all add: analyze_config_file_cases parse_conf_yaml items_loop_filter
        services_items_def reported_def mk_finding_def)

lemma example_args_simps:
  "config_files example_args = [''conf.yaml'']"
  "service_list example_args = Some ''active.txt''"
  "output' example_args = None"
  "format example_args = Text"
  by (simp_all add: example_args_def)

lemma can_write_example: "can_write example_env path \<longleftrightarrow> path = ''out.txt''"
  by (simp add: example_env_def)

lemma load_empty_path: "load_active_services example_env [] = None"
  by (simp add: load_active_services_def example_defs)

lemma main_example:
  "exit_code (main example_env example_args) = 1"
  "all_inactive_services (main example_env example_args)
     = [\<lparr>file' = ''conf.yaml'', service = KStr ''ftpd'', reason = REASON\<rparr>]"
  by (simp_all add: main_unfold example_args_simps load_failed_def load_active_txt
        report_exit_code report_fields analyze_conf_yaml write_failed_def)

lemma main_example_no_list:
  "exit_code (main example_env (example_args\<lparr>service_list := None\<rparr>)) = 0"
  "all_inactive_services (main example_env (example_args\<lparr>service_list := None\<rparr>)) = []"
  by (simp_all add: main_unfold example_args_simps load_failed_def
        report_exit_code report_fields analyze_config_file_None write_failed_def)

lemma main_example_unwritable:
  "exit_code (main example_env
     (example_args\<lparr>service_list := None, output' := Some ''/no/such/dir/report.txt''\<rparr>)) = 1"
  "all_inactive_services (main example_env
     (example_args\<lparr>service_list := None, output' := Some ''/no/such/dir/report.txt''\<rparr>)) = []"
  by (simp_all add: main_unfold example_args_simps load_failed_def
        report_exit_code report_fields analyze_config_file_None write_failed_def can_write_example)

lemma main_example_no_files:
  "main example_env (a\<lparr>config_files := []\<rparr>) = exit_early 2"
  by (simp add: main_def parse_args_def)

lemma main_example_missing_list:
  "main example_env (example_args\<lparr>service_list := Some ''missing.txt''\<rparr>) = exit_early 1"
  by (simp add: main_unfold example_args_simps load_failed_def load_missing_txt)

lemma main_example_empty_list_path:
  "exit_code (main example_env (example_args\<lparr>service_list := Some []\<rparr>)) = 0"
  "analyzed (main example_env (example_args\<lparr>service_list := Some []\<rparr>)) = [''conf.yaml'']"
  by (simp_all add: main_unfold example_args_simps load_failed_def
        report_exit_code report_fields analyze_config_file_None write_failed_def)

lemma example_problems:
  "per_file_problem example_env ''broken.yaml''"
  "per_file_problem example_env ''broken.json''"
  "per_file_problem example_env ''conf.ini''"
  "per_file_problem example_env ''missing.yaml''"
  "per_file_problem example_env ''list.yaml''"
  "per_file_problem example_env ''scalar.json''"
  by (simp_all add: per_file_problem_def parse_config_def example_defs ext_defs)

lemma example_case_variants:
  "case_variant ''.YAML'' ''.yaml''" "case_variant ''.Yml'' ''.yml''"
  "case_variant ''.JSON'' ''.json''"
  by (simp_all add: case_variant_def same_letter_def ascii_uppercase_def ascii_lowercase_def)

lemma example_splitext:
  "splitext ''etc/Conf.YAML'' = (''etc/Conf'', ''.YAML'')"
  "splitext ''conf.Yml'' = (''conf'', ''.Yml'')"
  "splitext ''list.JSON'' = (''list'', ''.JSON'')"
  by (simp_all add: splitext_def)

section \<open>The detection rule\<close>

text \<open>
  Claim C1. Let the file parse to a mapping (with unique keys, as every Python
  dictionary has). For every key \<open>n\<close> and every active-service set, the findings that
  \<open>analyze_config_file\<close> returns for \<open>n\<close> are: exactly one finding, with the fields
  \<open>file\<close> (the analyzed path), \<open>service\<close> (\<open>n\<close>) and \<open>reason\<close> (the fixed string), when the
  value of \<open>n\<close> is the boolean \<open>True\<close>, the active-service set is not \<open>None\<close> and \<open>n\<close> is
  not a member of it; and none otherwise.
\<close>

theorem analyze_config_file_finding_iff:
  assumes "parse_config e config_file = Inr (Some (PDict items))"
    and "distinct (map fst items)"
  shows "filter (\<lambda>f. service f = n) (analyze_config_file e config_file A) =
     (if map_of items n = Some (PBool True) \<and> A \<noteq> None \<and> \<not> key_in n (the A)
      then [\<lparr>file' = config_file, service = n, reason = REASON\<rparr>] else [])"
  using assms by (simp add: analyze_config_file_cases items_loop_for_key)

theorem analyze_config_file_finding_iff_witness:
  "parse_config example_env ''conf.yaml'' = Inr (Some (PDict services_items))
   \<and> distinct (map fst services_items)
   \<and> filter (\<lambda>f. service f = KStr ''ftpd'')
         (analyze_config_file example_env ''conf.yaml'' (Some {''sshd''}))
       = [\<lparr>file' = ''conf.yaml'', service = KStr ''ftpd'', reason = REASON\<rparr>]
   \<and> filter (\<lambda>f. service f = KStr ''sshd'')
         (analyze_config_file example_env ''conf.yaml'' (Some {''sshd''})) = []
   \<and> filter (\<lambda>f. service f = KStr ''cron'')
         (analyze_config_file example_env ''conf.yaml'' (Some {''sshd''})) = []
   \<and> filter (\<lambda>f. service f = KStr ''ftpd'')
         (analyze_config_file example_env ''conf.yaml'' None) = []"
proof -
  have p: "parse_config example_env ''conf.yaml'' = Inr (Some (PDict services_items))"
    by (simp add: parse_config_def example_defs ext_defs)
  have d: "distinct (map fst services_items)"
    by (simp add: services_items_def)
  show ?thesis
    using p d
      analyze_config_file_finding_iff [OF p d, of "KStr ''ftpd''" "Some {''sshd''}"]
      analyze_config_file_finding_iff [OF p d, of "KStr ''sshd''" "Some {''sshd''}"]
      analyze_config_file_finding_iff [OF p d, of "KStr ''cron''" "Some {''sshd''}"]
      analyze_config_file_finding_iff [OF p d, of "KStr ''ftpd''" None]
    by (simp add: services_items_def)
qed

text \<open>
  Claim C3. An entry whose value is not of boolean type (the string \<open>"true"\<close>, the
  integer \<open>1\<close>, the string \<open>"yes"\<close>, ...) never produces a finding, whatever the
  active-service set is.
\<close>

theorem non_boolean_never_reported:
  assumes "parse_config e config_file = Inr (Some (PDict items))"
    and "distinct (map fst items)"
    and "map_of items n = Some v"
    and "\<forall>b. v \<noteq> PBool b"
  shows "\<forall>f \<in> set (analyze_config_file e config_file A). service f \<noteq> n"
proof -
  have "filter (\<lambda>f. service f = n) (analyze_config_file e config_file A) = []"
    using assms by (simp add: analyze_config_file_cases items_loop_for_key)
  then show ?thesis by (simp add: filter_empty_conv)
qed

theorem non_boolean_never_reported_witness:
  "parse_config example_env ''truthy.yaml'' = Inr (Some (PDict truthy_items))
   \<and> distinct (map fst truthy_items)
   \<and> map_of truthy_items (KStr ''a'') = Some (PStr ''true'')
   \<and> map_of truthy_items (KStr ''b'') = Some (PInt 1)
   \<and> map_of truthy_items (KStr ''c'') = Some (PStr ''yes'')
   \<and> \<not> (\<exists>f \<in> set (analyze_config_file example_env ''truthy.yaml'' (Some {''sshd''})).
            service f \<in> {KStr ''a'', KStr ''b'', KStr ''c''})
   \<and> analyze_config_file example_env ''truthy.yaml'' (Some {''sshd''})
       = [\<lparr>file' = ''truthy.yaml'', service = KStr ''d'', reason = REASON\<rparr>]"
proof -
  have p: "parse_config example_env ''truthy.yaml'' = Inr (Some (PDict truthy_items))"
    by (simp add: parse_config_def example_defs ext_defs)
  have d: "distinct (map fst truthy_items)"
    by (simp add: truthy_items_def)
  have a: "map_of truthy_items (KStr ''a'') = Some (PStr ''true'')"
    and b: "map_of truthy_items (KStr ''b'') = Some (PInt 1)"
    and c: "map_of truthy_items (KStr ''c'') = Some (PStr ''yes'')"
    by (simp_all add: truthy_items_def)
  have r: "analyze_config_file example_env ''truthy.yaml'' (Some {''sshd''})
       = [\<lparr>file' = ''truthy.yaml'', service = KStr ''d'', reason = REASON\<rparr>]"
    by (simp add: analyze_config_file_def p truthy_items_def)
  show ?thesis
    using p d a b c r
      non_boolean_never_reported [OF p d a, of "Some {''sshd''}"]
      non_boolean_never_reported [OF p d b, of "Some {''sshd''}"]
      non_boolean_never_reported [OF p d c, of "Some {''sshd''}"]
    by simp
qed

text \<open>
  Claim C10. Detection is antitone in the active-service set: when \<open>A \<subseteq> B\<close>, every
  finding that \<open>analyze_config_file\<close> produces with \<open>B\<close> is also produced with \<open>A\<close>.
\<close>

theorem analyze_config_file_antitone:
  assumes "A \<subseteq> B"
  shows "set (analyze_config_file e config_file (Some B))
         \<subseteq> set (analyze_config_file e config_file (Some A))"
  using assms
  by (auto simp: analyze_config_file_cases items_loop_filter reported_def
           split: sum.splits option.splits pyval.splits dest: key_in_mono)

theorem analyze_config_file_antitone_witness:
  "{''sshd''} \<subseteq> {''sshd'', ''ftpd''}
   \<and> set (analyze_config_file example_env ''conf.yaml'' (Some {''sshd'', ''ftpd''}))
       \<subseteq> set (analyze_config_file example_env ''conf.yaml'' (Some {''sshd''}))
   \<and> analyze_config_file example_env ''conf.yaml'' (Some {''sshd'', ''ftpd''}) = []
   \<and> analyze_config_file example_env ''conf.yaml'' (Some {''sshd''})
       = [\<lparr>file' = ''conf.yaml'', service = KStr ''ftpd'', reason = REASON\<rparr>]"
proof -
  have s: "{''sshd''} \<subseteq> {''sshd'', ''ftpd''}" by simp
  have p: "parse_config example_env ''conf.yaml'' = Inr (Some (PDict services_items))"
    by (simp add: parse_config_def example_defs ext_defs)
  show ?thesis
    using s analyze_config_file_antitone [OF s, of example_env "''conf.yaml''"]
    by (simp add: analyze_config_file_def p services_items_def)
qed

section \<open>The active-service list\<close>

text \<open>
  Claim C5. \<open>load_active_services\<close> returns \<open>None\<close> exactly when the source cannot be
  read (it is missing or unreadable) or none of its lines is usable, that is, non-blank
  after trimming. Otherwise it returns the set of the trimmed usable lines: this set is
  not empty, and each of its members is trimmed and not blank. It never returns an empty
  set.
\<close>

theorem load_active_services_result:
  "(load_active_services e path = None \<longleftrightarrow>
      (\<exists>ex. read_file e path = Inl ex) \<or>
      (\<exists>content. read_file e path = Inr content \<and>
         (\<forall>line \<in> set (file_lines content). strip line = [])))
   \<and> (\<forall>S. load_active_services e path = Some S \<longrightarrow>
        S \<noteq> {} \<and> (\<forall>s \<in> S. trimmed s \<and> s \<noteq> []) \<and>
        (\<exists>content. read_file e path = Inr content \<and>
           S = {strip line | line. line \<in> set (file_lines content) \<and> strip line \<noteq> []}))"
proof (cases "read_file e path")
  case (Inl ex)
  then show ?thesis
    by (simp add: load_active_services_Inl)
next
  case (Inr content)
  let ?S = "{strip line | line. line \<in> set (file_lines content) \<and> strip line \<noteq> []}"
  show ?thesis
  proof (cases "\<forall>line \<in> set (file_lines content). strip line = []")
    case True
    have l: "load_active_services e path = None"
      unfolding load_active_services_Inr [OF Inr] using True by (rule if_P)
    show ?thesis
      unfolding l using Inr True by simp
  next
    case False
    then have ne: "?S \<noteq> {}" by blast
    have t: "\<forall>s \<in> ?S. trimmed s \<and> s \<noteq> []"
    proof
      fix s assume "s \<in> ?S"
      then obtain line where "s = strip line" "strip line \<noteq> []" by blast
      then show "trimmed s \<and> s \<noteq> []" by (simp add: strip_trimmed)
    qed
    have l: "load_active_services e path = Some ?S"
      unfolding load_active_services_Inr [OF Inr] using False by (rule if_not_P)
    have "?S \<noteq> {} \<and> (\<forall>s \<in> ?S. trimmed s \<and> s \<noteq> []) \<and>
        (\<exists>c. read_file e path = Inr c \<and>
           ?S = {strip line | line. line \<in> set (file_lines c) \<and> strip line \<noteq> []})"
      using ne t Inr by blast
    then show ?thesis
      unfolding l using Inr False by (simp only: option.inject option.distinct sum.inject sum.distinct simp_thms ex_simps) blast
  qed
qed

theorem load_active_services_result_witness:
  "load_active_services example_env ''active.txt'' = Some {''sshd'', ''cron''}
   \<and> trimmed ''sshd'' \<and> trimmed ''cron''
   \<and> read_file example_env ''active.txt''
       = Inr (''sshd'' @ [CHR 0x0A] @ [CHR 0x0A] @ ''  cron  '' @ [CHR 0x0A] @ ''sshd'')
   \<and> load_active_services example_env ''blank.txt'' = None
   \<and> read_file example_env ''blank.txt'' = Inr (''  '' @ [CHR 0x0A] @ [CHR 0x0A])
   \<and> load_active_services example_env ''missing.txt'' = None
   \<and> read_file example_env ''missing.txt'' = Inl FileNotFoundError"
  using load_active_services_result [of example_env "''active.txt''"]
        load_active_services_result [of example_env "''blank.txt''"]
        load_active_services_result [of example_env "''missing.txt''"]
        load_active_txt load_blank_txt load_missing_txt
  by (simp add: example_defs)

section \<open>The run and its exit status\<close>

text \<open>
  Claim C2, as the program has it. On a command line that names at least one
  configuration file, the exit status is 1 if one or more findings exist, or the
  active-service source was given (a non-empty path) and failed to load, or the output
  file was given (a non-empty path) and could not be written; otherwise it is 0.
\<close>

theorem main_exit_code_amended:
  assumes "config_files a \<noteq> []"
  shows "exit_code (main e a) =
     (if all_inactive_services (main e a) \<noteq> [] \<or> load_failed e a \<or> write_failed e a
      then 1 else 0)"
  using main_exit_code [OF assms, of e] by auto

theorem main_exit_code_amended_witness:
  "config_files example_args \<noteq> []
   \<and> all_inactive_services (main example_env example_args) \<noteq> []
   \<and> exit_code (main example_env example_args) = 1
   \<and> all_inactive_services (main example_env (example_args\<lparr>service_list := None\<rparr>)) = []
   \<and> exit_code (main example_env (example_args\<lparr>service_list := None\<rparr>)) = 0
   \<and> load_failed example_env (example_args\<lparr>service_list := Some ''missing.txt''\<rparr>)
   \<and> exit_code (main example_env (example_args\<lparr>service_list := Some ''missing.txt''\<rparr>)) = 1"
proof -
  have c: "config_files example_args \<noteq> []" by (simp add: example_args_simps)
  have c1: "config_files (example_args\<lparr>service_list := None\<rparr>) \<noteq> []"
    by (simp add: example_args_simps)
  have c2: "config_files (example_args\<lparr>service_list := Some ''missing.txt''\<rparr>) \<noteq> []"
    by (simp add: example_args_simps)
  have l: "load_failed example_env (example_args\<lparr>service_list := Some ''missing.txt''\<rparr>)"
    by (simp add: load_failed_def load_missing_txt)
  have w: "\<not> write_failed example_env (example_args\<lparr>service_list := None\<rparr>)"
    "\<not> load_failed example_env (example_args\<lparr>service_list := None\<rparr>)"
    by (simp_all add: write_failed_def load_failed_def example_args_simps)
  show ?thesis
    using c l w main_example(2) main_example_no_list(2)
      main_exit_code_amended [OF c, of example_env]
      main_exit_code_amended [OF c1, of example_env]
      main_exit_code_amended [OF c2, of example_env]
    by simp
qed

text \<open>
  Claim C2 as stated fails on two runs: without a configuration file the argument
  parser ends the process with status 2, not 1; and a run without findings whose output
  file cannot be written ends with status 1, not 0.
\<close>

theorem main_exit_code_counterexample:
  "config_files (example_args\<lparr>config_files := []\<rparr>) = []
   \<and> exit_code (main example_env (example_args\<lparr>config_files := []\<rparr>)) = 2
   \<and> config_files (example_args\<lparr>service_list := None,
                      output' := Some ''/no/such/dir/report.txt''\<rparr>) = [''conf.yaml'']
   \<and> all_inactive_services (main example_env
        (example_args\<lparr>service_list := None, output' := Some ''/no/such/dir/report.txt''\<rparr>)) = []
   \<and> exit_code (main example_env
        (example_args\<lparr>service_list := None, output' := Some ''/no/such/dir/report.txt''\<rparr>)) = 1"
  by (simp add: main_example_no_files main_example_unwritable exit_early_def example_args_simps)

text \<open>
  Claim C4, as the program has it. When the active-service source is given as a
  non-empty path on a command line that names at least one configuration file, and
  loading it yields \<open>None\<close>, the run ends with status 1 before any configuration file is
  analyzed: there are no findings and nothing is printed or written.
\<close>

theorem load_failure_aborts:
  assumes "config_files a \<noteq> []"
    and "service_list a = Some path" and "path \<noteq> []"
    and "load_active_services e path = None"
  shows "main e a =
     \<lparr>exit_code = 1, analyzed = [], all_inactive_services = [], printed = None,
      written = None\<rparr>"
  using assms by (simp add: main_unfold load_failed_def exit_early_def)

theorem load_failure_aborts_witness:
  "config_files (example_args\<lparr>service_list := Some ''missing.txt''\<rparr>) \<noteq> []
   \<and> service_list (example_args\<lparr>service_list := Some ''missing.txt''\<rparr>) = Some ''missing.txt''
   \<and> load_active_services example_env ''missing.txt'' = None
   \<and> load_active_services example_env ''blank.txt'' = None
   \<and> main example_env (example_args\<lparr>service_list := Some ''missing.txt''\<rparr>) =
       \<lparr>exit_code = 1, analyzed = [], all_inactive_services = [], printed = None,
        written = None\<rparr>
   \<and> main example_env (example_args\<lparr>service_list := Some ''blank.txt''\<rparr>) =
       \<lparr>exit_code = 1, analyzed = [], all_inactive_services = [], printed = None,
        written = None\<rparr>"
proof -
  have c: "config_files (example_args\<lparr>service_list := Some p\<rparr>) \<noteq> []" for p
    by (simp add: example_args_simps)
  have s: "service_list (example_args\<lparr>service_list := Some p\<rparr>) = Some p" for p
    by simp
  have n: "''missing.txt'' \<noteq> []" "''blank.txt'' \<noteq> []" by simp_all
  show ?thesis
    using c s load_missing_txt load_blank_txt
      load_failure_aborts [OF c s n(1) load_missing_txt]
      load_failure_aborts [OF c s n(2) load_blank_txt]
    by simp
qed

text \<open>
  Claim C4 as stated fails on two runs: with the empty path as source, whose loading
  yields \<open>None\<close>, the test \<open>if args.service_list\<close> skips the loader, the configuration
  file is analyzed and the status is 0; and without a configuration file the status
  is 2.
\<close>

theorem load_failure_aborts_counterexample:
  "service_list (example_args\<lparr>service_list := Some []\<rparr>) = Some []
   \<and> load_active_services example_env [] = None
   \<and> exit_code (main example_env (example_args\<lparr>service_list := Some []\<rparr>)) = 0
   \<and> analyzed (main example_env (example_args\<lparr>service_list := Some []\<rparr>)) = [''conf.yaml'']
   \<and> service_list (example_args\<lparr>config_files := [], service_list := Some ''missing.txt''\<rparr>)
       = Some ''missing.txt''
   \<and> load_active_services example_env ''missing.txt'' = None
   \<and> exit_code (main example_env
        (example_args\<lparr>config_files := [], service_list := Some ''missing.txt''\<rparr>)) = 2"
proof -
  have "example_args\<lparr>config_files := [], service_list := Some ''missing.txt''\<rparr>
        = (example_args\<lparr>service_list := Some ''missing.txt''\<rparr>)\<lparr>config_files := []\<rparr>"
    by simp
  then have "exit_code (main example_env
        (example_args\<lparr>config_files := [], service_list := Some ''missing.txt''\<rparr>)) = 2"
    by (simp only: main_example_no_files) (simp add: exit_early_def)
  then show ?thesis
    by (simp add: load_empty_path load_missing_txt main_example_empty_list_path)
qed

text \<open>
  Claim C6, as the program has it. Without an active-service set, on a command line
  that names at least one configuration file, every file yields no finding, the run has
  no finding, and the exit status is 0 provided the output file, when one is given, can
  be written.
\<close>

theorem no_active_set_no_findings:
  assumes "config_files a \<noteq> []"
    and "\<not> truthy (service_list a)"
    and "\<not> write_failed e a"
  shows "(\<forall>config_file \<in> set (config_files a). analyze_config_file e config_file None = [])
     \<and> all_inactive_services (main e a) = []
     \<and> analyzed (main e a) = config_files a
     \<and> exit_code (main e a) = 0"
proof -
  have m: "main e a = report e a None"
    using assms(1,2) by (simp add: main_unfold load_failed_def)
  have f: "all_inactive_services (main e a) = []"
    by (simp add: m report_fields analyze_config_file_None)
  have "exit_code (main e a) = 0"
    using f assms(3) by (simp add: m report_exit_code)
  with f show ?thesis
    by (simp add: analyze_config_file_None m report_fields)
qed

theorem no_active_set_no_findings_witness:
  "config_files (example_args\<lparr>service_list := None\<rparr>) \<noteq> []
   \<and> \<not> truthy (service_list (example_args\<lparr>service_list := None\<rparr>))
   \<and> \<not> write_failed example_env (example_args\<lparr>service_list := None\<rparr>)
   \<and> analyze_config_file example_env ''conf.yaml'' None = []
   \<and> all_inactive_services (main example_env (example_args\<lparr>service_list := None\<rparr>)) = []
   \<and> exit_code (main example_env (example_args\<lparr>service_list := None\<rparr>)) = 0"
proof -
  have c: "config_files (example_args\<lparr>service_list := None\<rparr>) \<noteq> []"
    by (simp add: example_args_simps)
  have t: "\<not> truthy (service_list (example_args\<lparr>service_list := None\<rparr>))"
    by simp
  have w: "\<not> write_failed example_env (example_args\<lparr>service_list := None\<rparr>)"
    by (simp add: write_failed_def example_args_simps)
  show ?thesis
    using c t w no_active_set_no_findings [OF c t w]
    by (simp add: example_args_simps)
qed

text \<open>
  Claim C6 as stated fails on two runs without \<open>--service-list\<close>: when the output file
  cannot be written the status is 1, and without a configuration file it is 2.
\<close>

theorem no_active_set_counterexample:
  "service_list (example_args\<lparr>service_list := None,
                   output' := Some ''/no/such/dir/report.txt''\<rparr>) = None
   \<and> all_inactive_services (main example_env
        (example_args\<lparr>service_list := None, output' := Some ''/no/such/dir/report.txt''\<rparr>)) = []
   \<and> exit_code (main example_env
        (example_args\<lparr>service_list := None, output' := Some ''/no/such/dir/report.txt''\<rparr>)) = 1
   \<and> service_list (example_args\<lparr>service_list := None, config_files := []\<rparr>) = None
   \<and> exit_code (main example_env (example_args\<lparr>service_list := None, config_files := []\<rparr>)) = 2"
  by (simp add: main_example_unwritable main_example_no_files exit_early_def)

section \<open>The output without findings\<close>

text \<open>
  Claim C8. When a run that analyzed its files has no finding, the formatted output is
  the sentence \<open>No inactive service configurations found.\<close> in text mode and the empty
  JSON array \<open>[]\<close> in json mode; this string is printed when no output file is given, and
  written to the output file when one is given and writable.
\<close>

theorem zero_findings_output:
  assumes "config_files a \<noteq> []" and "\<not> load_failed e a"
    and "all_inactive_services (main e a) = []"
  shows "format_output (format a) (all_inactive_services (main e a)) =
       Inr (if format a = Json then ''[]'' else ''No inactive service configurations found.'')
     \<and> printed (main e a) =
         (if truthy (output' a) then None
          else Some (if format a = Json then ''[]''
                     else ''No inactive service configurations found.''))
     \<and> written (main e a) =
         (if truthy (output' a) \<and> can_write e (the (output' a))
          then Some (the (output' a),
                     if format a = Json then ''[]''
                     else ''No inactive service configurations found.'')
          else None)"
proof -
  define A where "A = (if truthy (service_list a)
                       then load_active_services e (the (service_list a)) else None)"
  have m: "main e a = report e a A"
    using assms(1,2) by (simp add: main_unfold A_def)
  have "files_loop e A (config_files a) [] = []"
    using assms(3) by (simp add: m report_fields files_loop_concat)
  then have r: "main e a = \<lparr>exit_code = (if write_failed e a then 1 else 0),
      analyzed = config_files a, all_inactive_services = [],
      printed = (if truthy (output' a) then None
                 else Some (if format a = Json then ''[]''
                            else ''No inactive service configurations found.'')),
      written = (if truthy (output' a) \<and> can_write e (the (output' a))
                 then Some (the (output' a),
                            if format a = Json then ''[]''
                            else ''No inactive service configurations found.'')
                 else None)\<rparr>"
    unfolding m by (rule report_output)
  show ?thesis
    by (simp add: assms(3) format_output_Nil) (simp add: r)
qed

theorem zero_findings_output_witness:
  "config_files (example_args\<lparr>service_list := None, format := Text, output' := None\<rparr>) \<noteq> []
   \<and> \<not> load_failed example_env
         (example_args\<lparr>service_list := None, format := Text, output' := None\<rparr>)
   \<and> all_inactive_services (main example_env
         (example_args\<lparr>service_list := None, format := Text, output' := None\<rparr>)) = []
   \<and> printed (main example_env
         (example_args\<lparr>service_list := None, format := Text, output' := None\<rparr>))
       = Some ''No inactive service configurations found.''
   \<and> printed (main example_env
         (example_args\<lparr>service_list := None, format := Json, output' := None\<rparr>))
       = Some ''[]''
   \<and> written (main example_env
        (example_args\<lparr>service_list := None, format := Json, output' := Some ''out.txt''\<rparr>))
       = Some (''out.txt'', ''[]'')"
proof -
  have c: "config_files (example_args\<lparr>service_list := None, format := f, output' := p\<rparr>) \<noteq> []"
    for f p by (simp add: example_args_simps)
  have l: "\<not> load_failed example_env (example_args\<lparr>service_list := None, format := f, output' := p\<rparr>)"
    for f p by (simp add: load_failed_def)
  have z: "all_inactive_services (main example_env
             (example_args\<lparr>service_list := None, format := f, output' := p\<rparr>)) = []"
    for f p
    using c [where f = f and p = p] l [where f = f and p = p]
    by (simp add: main_unfold report_fields analyze_config_file_None)
  show ?thesis
    using c [where f = Text and p = None] l [where f = Text and p = None]
      z [where f = Text and p = None]
      zero_findings_output [OF c [where f = Text and p = None]
        l [where f = Text and p = None] z [where f = Text and p = None]]
      zero_findings_output [OF c [where f = Json and p = None]
        l [where f = Json and p = None] z [where f = Json and p = None]]
      zero_findings_output [OF c [where f = Json and p = "Some ''out.txt''"]
        l [where f = Json and p = "Some ''out.txt''"]
        z [where f = Json and p = "Some ''out.txt''"]]
    by (simp add: can_write_example)
qed

section \<open>Problems of a configuration file\<close>

text \<open>
  Claim C7. A file that is missing or unreadable, has an unsupported extension, is
  rejected by its parser, or holds a document that is not a mapping makes
  \<open>analyze_config_file\<close> return the empty list: every exception is a value that the
  handlers of the function turn into this result. The run goes on with the other
  files: its exit status, its findings and its output are those of the run without
  the file.
\<close>

theorem per_file_problem_skipped:
  assumes "per_file_problem e config_file"
  shows "analyze_config_file e config_file A = []
     \<and> (xs @ ys \<noteq> [] \<longrightarrow>
          exit_code (main e (a\<lparr>config_files := xs @ config_file # ys\<rparr>))
            = exit_code (main e (a\<lparr>config_files := xs @ ys\<rparr>))
        \<and> all_inactive_services (main e (a\<lparr>config_files := xs @ config_file # ys\<rparr>))
            = all_inactive_services (main e (a\<lparr>config_files := xs @ ys\<rparr>))
        \<and> printed (main e (a\<lparr>config_files := xs @ config_file # ys\<rparr>))
            = printed (main e (a\<lparr>config_files := xs @ ys\<rparr>))
        \<and> written (main e (a\<lparr>config_files := xs @ config_file # ys\<rparr>))
            = written (main e (a\<lparr>config_files := xs @ ys\<rparr>)))"
proof -
  have z: "analyze_config_file e config_file B = []" for B
    using assms by (rule per_file_problem_analyze)
  have "main e (a\<lparr>config_files := xs @ config_file # ys\<rparr>) =
        (if load_failed e a then exit_early 1
         else (report e (a\<lparr>config_files := xs @ ys\<rparr>)
                (if truthy (service_list a)
                 then load_active_services e (the (service_list a)) else None))
              \<lparr>analyzed := xs @ config_file # ys\<rparr>)"
    by (simp add: main_unfold report_skip [OF z])
  moreover have "xs @ ys \<noteq> [] \<Longrightarrow> main e (a\<lparr>config_files := xs @ ys\<rparr>) =
        (if load_failed e a then exit_early 1
         else report e (a\<lparr>config_files := xs @ ys\<rparr>)
                (if truthy (service_list a)
                 then load_active_services e (the (service_list a)) else None))"
    by (simp add: main_unfold)
  ultimately show ?thesis
    using z by simp
qed

theorem per_file_problem_skipped_witness:
  "per_file_problem example_env ''broken.yaml''
   \<and> per_file_problem example_env ''broken.json''
   \<and> per_file_problem example_env ''conf.ini''
   \<and> per_file_problem example_env ''missing.yaml''
   \<and> per_file_problem example_env ''list.yaml''
   \<and> per_file_problem example_env ''scalar.json''
   \<and> analyze_config_file example_env ''broken.yaml'' (Some {''sshd''}) = []
   \<and> analyze_config_file example_env ''broken.json'' (Some {''sshd''}) = []
   \<and> analyze_config_file example_env ''conf.ini'' (Some {''sshd''}) = []
   \<and> analyze_config_file example_env ''missing.yaml'' (Some {''sshd''}) = []
   \<and> analyze_config_file example_env ''list.yaml'' (Some {''sshd''}) = []
   \<and> analyze_config_file example_env ''scalar.json'' (Some {''sshd''}) = []
   \<and> all_inactive_services (main example_env
         (example_args\<lparr>config_files := [''broken.yaml'', ''conf.yaml'']\<rparr>))
       = [\<lparr>file' = ''conf.yaml'', service = KStr ''ftpd'', reason = REASON\<rparr>]
   \<and> exit_code (main example_env
         (example_args\<lparr>config_files := [''broken.yaml'', ''conf.yaml'']\<rparr>)) = 1"
proof -
  have a: "example_args\<lparr>config_files := [''conf.yaml'']\<rparr> = example_args"
    by (simp add: example_args_def)
  have n: "[] @ [''conf.yaml''] \<noteq> []" by simp
  show ?thesis
    using example_problems main_example n
      per_file_problem_skipped [OF example_problems(1), of "Some {''sshd''}" "[]"
        "[''conf.yaml'']" example_args]
      per_file_problem_skipped [OF example_problems(2), of "Some {''sshd''}"]
      per_file_problem_skipped [OF example_problems(3), of "Some {''sshd''}"]
      per_file_problem_skipped [OF example_problems(4), of "Some {''sshd''}"]
      per_file_problem_skipped [OF example_problems(5), of "Some {''sshd''}"]
      per_file_problem_skipped [OF example_problems(6), of "Some {''sshd''}"]
    by (simp add: a)
qed

text \<open>
  Claim C9. The extension is matched without regard to letter case: a readable file
  whose extension, as \<open>os.path.splitext\<close> gives it, is a letter-case variant of
  \<open>.yaml\<close> or \<open>.yml\<close> is parsed by the YAML parser, one whose extension is a variant of
  \<open>.json\<close> by the JSON parser, and the parsed document is what the file is analyzed
  as.
\<close>

theorem extension_case_insensitive:
  assumes "read_file e config_file = Inr content"
  shows "((case_variant (snd (splitext config_file)) ''.yaml''
           \<or> case_variant (snd (splitext config_file)) ''.yml'')
          \<and> yaml_safe_load e content = Inr d
          \<longrightarrow> parse_config e config_file = Inr (Some d))
     \<and> (case_variant (snd (splitext config_file)) ''.json''
          \<and> json_load e content = Inr d
          \<longrightarrow> parse_config e config_file = Inr (Some d))"
proof -
  have y: "lower (snd (splitext config_file)) \<in> {''.yaml'', ''.yml''}"
    if "case_variant (snd (splitext config_file)) ''.yaml''
        \<or> case_variant (snd (splitext config_file)) ''.yml''"
    using that lower_case_variant lower_extensions by auto
  have j: "lower (snd (splitext config_file)) = ''.json''"
    if "case_variant (snd (splitext config_file)) ''.json''"
    using that lower_case_variant lower_extensions by auto
  show ?thesis
    using y j by (auto simp: parse_config_def assms Let_def)
qed

theorem extension_case_insensitive_witness:
  "read_file example_env ''etc/Conf.YAML'' = Inr services_text
   \<and> snd (splitext ''etc/Conf.YAML'') = ''.YAML'' \<and> case_variant ''.YAML'' ''.yaml''
   \<and> yaml_safe_load example_env services_text = Inr (PDict services_items)
   \<and> parse_config example_env ''etc/Conf.YAML'' = Inr (Some (PDict services_items))
   \<and> read_file example_env ''conf.Yml'' = Inr services_text
   \<and> snd (splitext ''conf.Yml'') = ''.Yml'' \<and> case_variant ''.Yml'' ''.yml''
   \<and> parse_config example_env ''conf.Yml'' = Inr (Some (PDict services_items))
   \<and> read_file example_env ''list.JSON'' = Inr ''[true]''
   \<and> snd (splitext ''list.JSON'') = ''.JSON'' \<and> case_variant ''.JSON'' ''.json''
   \<and> json_load example_env ''[true]'' = Inr (PList [PBool True])
   \<and> parse_config example_env ''list.JSON'' = Inr (Some (PList [PBool True]))"
proof -
  have r: "read_file example_env ''etc/Conf.YAML'' = Inr services_text"
    "read_file example_env ''conf.Yml'' = Inr services_text"
    "read_file example_env ''list.JSON'' = Inr ''[true]''"
    by (simp_all add: example_env_def example_files_def)
  have p: "yaml_safe_load example_env services_text = Inr (PDict services_items)"
    "json_load example_env ''[true]'' = Inr (PList [PBool True])"
    by (simp_all add: example_env_def example_yaml_def example_json_def)
  show ?thesis
    using r p example_case_variants example_splitext
      extension_case_insensitive [OF r(1), of "PDict services_items"]
      extension_case_insensitive [OF r(2), of "PDict services_items"]
      extension_case_insensitive [OF r(3), of "PList [PBool True]"]
    by simp
qed

end
